theory Spec2Isabelle
  imports Main
begin

section \<open>Values exchanged with clients and with the browser driver\<close>

text \<open>
  A JavaScript number is a double. The program does no arithmetic and compares no
  numbers: all it can observe of a number is the string JavaScript converts it to and
  whether it is truthy (neither zero nor NaN). A number is modelled by these two
  observations, so that the conversion of every number, an integer or not, small or
  large, is the one JavaScript makes.
\<close>

datatype number = Number (number_string: string) (number_truthy: bool)

text \<open>
  Everything a client sends is parsed JSON, and the TypeScript types \<open>any\<close> and
  \<open>BrowserCommand\<close> are not checked at run time. A value is therefore modelled as the
  JavaScript value it is; \<open>Undefined\<close> is the value of an absent field. An \<open>Obj\<close> is
  a plain object with the own properties listed, none of them callable, as
  \<open>JSON.parse\<close> builds it.
\<close>

datatype json =
    Undefined
  | Null
  | Bool bool
  | Num number
  | Str string
  | Arr "json list"
  | Obj "(string \<times> json) list"

text \<open>
  \<open>v.k\<close>: reading a property of \<open>undefined\<close> or \<open>null\<close> throws a TypeError (the
  \<open>Inl\<close> carries its message); a property that is absent reads as \<open>undefined\<close>. None of
  the property names the program reads (\<open>type\<close>, \<open>data\<close>, \<open>id\<close>, \<open>url\<close>,
  \<open>selector\<close>, \<open>text\<close>, \<open>script\<close>, \<open>fullPage\<close>) is defined on a boolean, a number,
  a string or an array.
\<close>

definition cannot_read :: "string \<Rightarrow> string \<Rightarrow> string" where
  "cannot_read base k =
     ''Cannot read properties of '' @ base @ '' (reading '' @ [CHR 0x27] @ k @ [CHR 0x27] @ '')''"

fun js_get :: "json \<Rightarrow> string \<Rightarrow> string + json" where
  "js_get Undefined k = Inl (cannot_read ''undefined'' k)"
| "js_get Null k = Inl (cannot_read ''null'' k)"
| "js_get (Obj kvs) k = Inr (case map_of kvs k of Some v \<Rightarrow> v | None \<Rightarrow> Undefined)"
| "js_get v k = Inr Undefined"

text \<open>\<open>v?.k\<close>: optional chaining gives \<open>undefined\<close> where \<open>v.k\<close> would throw.\<close>

definition opt_prop :: "json \<Rightarrow> string \<Rightarrow> json" where
  "opt_prop v k = (case js_get v k of Inl e \<Rightarrow> Undefined | Inr x \<Rightarrow> x)"

text \<open>JavaScript truthiness, as \<open>||\<close> uses it.\<close>

fun truthy :: "json \<Rightarrow> bool" where
  "truthy Undefined = False"
| "truthy Null = False"
| "truthy (Bool b) = b"
| "truthy (Num n) = number_truthy n"
| "truthy (Str s) = (s \<noteq> [])"
| "truthy v = True"

text \<open>
  The number that the size of a \<open>Set\<close> is. A \<open>Set\<close> holds far fewer than
  \<open>2^53\<close> elements, and JavaScript converts a whole number of that range to its
  decimal digits.
\<close>

fun digits :: "nat \<Rightarrow> string" where
  "digits n =
     (if n < 10 then [char_of (48 + n)]
      else digits (n div 10) @ [char_of (48 + n mod 10)])"

definition size_number :: "nat \<Rightarrow> number" where
  "size_number n = Number (digits n) (n \<noteq> 0)"

fun join_comma :: "string list \<Rightarrow> string" where
  "join_comma [] = []"
| "join_comma [s] = s"
| "join_comma (s # ss) = s @ '','' @ join_comma ss"

text \<open>The results of a list of conversions made in order: the first error, or all values.\<close>

fun collect :: "(string + 'a) list \<Rightarrow> string + 'a list" where
  "collect [] = Inr []"
| "collect (Inl e # rs) = Inl e"
| "collect (Inr x # rs) = (case collect rs of Inl e \<Rightarrow> Inl e | Inr xs \<Rightarrow> Inr (x # xs))"

definition cannot_convert :: string where
  "cannot_convert = ''Cannot convert object to primitive value''"

text \<open>
  The string conversion that a template literal applies to the value it interpolates;
  \<open>Inl\<close> carries the message of the TypeError it throws. An object is converted by
  its \<open>toString\<close> method, then by its \<open>valueOf\<close>. A plain object inherits a
  \<open>toString\<close> that answers \<open>[object Object]\<close>; an own property \<open>toString\<close> hides
  it and is not callable, \<open>valueOf\<close> (own and not callable, or inherited and
  answering the object itself) gives no primitive value either, and the conversion
  throws. An array joins the conversions of its elements, made in order, with commas;
  \<open>undefined\<close> and \<open>null\<close> elements give the empty string.
\<close>

fun js_String :: "json \<Rightarrow> string + string" where
  "js_String Undefined = Inr ''undefined''"
| "js_String Null = Inr ''null''"
| "js_String (Bool b) = Inr (if b then ''true'' else ''false'')"
| "js_String (Num n) = Inr (number_string n)"
| "js_String (Str s) = Inr s"
| "js_String (Arr xs) =
     (case collect (map (\<lambda>x. if x = Undefined \<or> x = Null then Inr [] else js_String x) xs) of
        Inl e \<Rightarrow> Inl e
      | Inr ss \<Rightarrow> Inr (join_comma ss))"
| "js_String (Obj kvs) =
     (if map_of kvs ''toString'' \<noteq> None then Inl cannot_convert else Inr ''[object Object]'')"

text \<open>Handles of the driver's objects: a \<open>Browser\<close> and a \<open>Page\<close> of puppeteer.\<close>

type_synonym handle = nat

text \<open>
  The operations of the driver (puppeteer) that the program invokes, with their
  arguments. The fixed options (launch arguments, viewport size, \<open>waitUntil\<close>, the
  configured timeout) are constants of the source and are not repeated here.
\<close>

datatype drv_call =
    Launch
  | NewPage handle
  | SetViewport handle
  | PageOn handle string
  | PageClose handle
  | BrowserClose handle
  | Goto handle json
  | Click handle json
  | TypeText handle json json
  | Screenshot handle json
  | Evaluate handle json
  | Reload handle
  | GoBack handle
  | GoForward handle
  | Url handle
  | Title handle

datatype level = Debug | Info | Warn | Error

text \<open>A WebSocket object of a connected client, by identity.\<close>

type_synonym ws = nat

text \<open>
  What a piece of code does besides changing the manager's fields, in the order it does
  it: a driver operation it invokes, a line it logs (level, message and the \<open>error\<close>
  field of the metadata when there is one), a message it sends to a client.
\<close>

datatype effect =
    Call drv_call
  | Log level string "string option"
  | Send ws json

definition calls_of :: "effect list \<Rightarrow> drv_call list" where
  "calls_of es = concat (map (\<lambda>e. case e of Call c \<Rightarrow> [c] | _ \<Rightarrow> []) es)"


text \<open>
  The driver as the program sees it: what each operation answers. Every operation is
  fallible; \<open>Inl\<close> carries the message of the error it throws or rejects with (a timeout
  is such an error). What \<open>screenshot\<close>, \<open>evaluate\<close>, \<open>url\<close> and \<open>title\<close>
  answer is taken to be a value of the kind above, one that \<open>JSON.stringify\<close> accepts.
\<close>

record driver =
  launch :: "string + handle"
  newPage :: "handle \<Rightarrow> string + handle"
  setViewport :: "handle \<Rightarrow> string + unit"
  page_close :: "handle \<Rightarrow> string + unit"
  browser_close :: "handle \<Rightarrow> string + unit"
  goto :: "handle \<Rightarrow> json \<Rightarrow> string + unit"
  click :: "handle \<Rightarrow> json \<Rightarrow> string + unit"
  type_text :: "handle \<Rightarrow> json \<Rightarrow> json \<Rightarrow> string + unit"
  screenshot :: "handle \<Rightarrow> json \<Rightarrow> string + json"
  evaluate :: "handle \<Rightarrow> json \<Rightarrow> string + json"
  reload :: "handle \<Rightarrow> string + unit"
  goBack :: "handle \<Rightarrow> string + unit"
  goForward :: "handle \<Rightarrow> string + unit"
  url :: "handle \<Rightarrow> string + json"
  title :: "handle \<Rightarrow> string + json"

section \<open>BrowserManager (browser.ts)\<close>

record BrowserManager =
  browser :: "handle option"
  page :: "handle option"
  isInitializing :: bool

text \<open>The field initialisers of the class.\<close>

definition new_BrowserManager :: BrowserManager where
  "new_BrowserManager = \<lparr>browser = None, page = None, isInitializing = False\<rparr>"

definition isInitialized :: "BrowserManager \<Rightarrow> bool" where
  "isInitialized s = (browser s \<noteq> None \<and> page s \<noteq> None)"

subsection \<open>Suspension points\<close>

text \<open>
  \<open>initialize\<close> and \<open>close\<close> are async functions: each runs synchronously up to an
  \<open>await\<close> of a driver operation, and resumes when the driver settles that operation.
  Under the single-threaded scheduler a piece of code between two suspension points runs
  alone; other calls may run while a call is suspended. Each such piece is a function
  of the manager's fields at the time it runs. A call is suspended at a driver
  operation, has returned, or has thrown (its promise is rejected with the message).
\<close>

datatype await_point =
    ALaunch
  | ANewPage handle
  | ASetViewport handle
  | APageClose handle
  | ABrowserClose handle

datatype status = Awaiting await_point | Returned | Threw string

type_synonym segment = "BrowserManager \<times> effect list \<times> status"

subsection \<open>initialize\<close>

text \<open>The \<open>catch\<close> block of \<open>initialize\<close>, followed by its \<open>finally\<close> block.\<close>

definition initialize_catch :: "string \<Rightarrow> BrowserManager \<Rightarrow> segment" where
  "initialize_catch e s =
     (s\<lparr>browser := None, page := None, isInitializing := False\<rparr>,
      [Log Error ''Failed to initialize browser'' (Some e)],
      Threw e)"

text \<open>From the call to \<open>await puppeteer.launch(...)\<close>. The two guards stand before the
  \<open>try\<close>, so the \<open>finally\<close> block does not run for them.\<close>

definition initialize_enter :: "BrowserManager \<Rightarrow> segment" where
  "initialize_enter s =
     (if isInitializing s then
        (s, [Log Warn ''Browser initialization already in progress'' None], Returned)
      else if browser s \<noteq> None then
        (s, [Log Warn ''Browser already initialized'' None], Returned)
      else
        (s\<lparr>isInitializing := True\<rparr>,
         [Log Info ''Initializing browser'' None, Call Launch],
         Awaiting ALaunch))"

text \<open>\<open>this.browser = <launched>; this.page = await this.browser.newPage()\<close>.\<close>

definition initialize_after_launch :: "BrowserManager \<Rightarrow> string + handle \<Rightarrow> segment" where
  "initialize_after_launch s r =
     (case r of
        Inl e \<Rightarrow> initialize_catch e s
      | Inr b \<Rightarrow> (s\<lparr>browser := Some b\<rparr>, [Call (NewPage b)], Awaiting (ANewPage b)))"

text \<open>\<open>this.page = <new page>; await this.page.setViewport(...)\<close>.\<close>

definition initialize_after_newPage :: "BrowserManager \<Rightarrow> string + handle \<Rightarrow> segment" where
  "initialize_after_newPage s r =
     (case r of
        Inl e \<Rightarrow> initialize_catch e s
      | Inr p \<Rightarrow> (s\<lparr>page := Some p\<rparr>, [Call (SetViewport p)], Awaiting (ASetViewport p)))"

text \<open>
  The three \<open>this.page.on(...)\<close> registrations, the success log line and the
  \<open>finally\<close> block. \<open>this.page\<close> is read again here: were it null by now, the first
  registration would throw a TypeError inside the \<open>try\<close>.
\<close>

definition initialize_after_setViewport :: "BrowserManager \<Rightarrow> string + unit \<Rightarrow> segment" where
  "initialize_after_setViewport s r =
     (case r of
        Inl e \<Rightarrow> initialize_catch e s
      | Inr u \<Rightarrow>
          (case page s of
             None \<Rightarrow> initialize_catch (cannot_read ''null'' ''on'') s
           | Some p \<Rightarrow>
               (s\<lparr>isInitializing := False\<rparr>,
                [Call (PageOn p ''error''), Call (PageOn p ''pageerror''),
                 Call (PageOn p ''console''),
                 Log Info ''Browser initialized successfully'' None],
                Returned)))"

subsection \<open>close\<close>

text \<open>The \<open>catch\<close> block of \<open>close\<close>: it logs and rethrows, and assigns nothing.\<close>

definition close_catch :: "string \<Rightarrow> BrowserManager \<Rightarrow> segment" where
  "close_catch e s = (s, [Log Error ''Error closing browser'' (Some e)], Threw e)"

text \<open>From \<open>if (this.browser)\<close> on.\<close>

definition close_browser :: "BrowserManager \<Rightarrow> segment" where
  "close_browser s =
     (case browser s of
        Some b \<Rightarrow> (s, [Call (BrowserClose b)], Awaiting (ABrowserClose b))
      | None \<Rightarrow> (s, [Log Info ''Browser closed successfully'' None], Returned))"

definition close_enter :: "BrowserManager \<Rightarrow> segment" where
  "close_enter s =
     (case page s of
        Some p \<Rightarrow>
          (s, [Log Info ''Closing browser'' None, Call (PageClose p)], Awaiting (APageClose p))
      | None \<Rightarrow>
          (case close_browser s of
             (s', es, st) \<Rightarrow> (s', Log Info ''Closing browser'' None # es, st)))"

definition close_after_page_close :: "BrowserManager \<Rightarrow> string + unit \<Rightarrow> segment" where
  "close_after_page_close s r =
     (case r of
        Inl e \<Rightarrow> close_catch e s
      | Inr u \<Rightarrow> close_browser (s\<lparr>page := None\<rparr>))"

definition close_after_browser_close :: "BrowserManager \<Rightarrow> string + unit \<Rightarrow> segment" where
  "close_after_browser_close s r =
     (case r of
        Inl e \<Rightarrow> close_catch e s
      | Inr u \<Rightarrow>
          (s\<lparr>browser := None\<rparr>, [Log Info ''Browser closed successfully'' None], Returned))"

subsection \<open>A call that no other call interleaves with\<close>

text \<open>
  When nothing else runs while a call is suspended, each \<open>await\<close> continues with
  the answer of the driver to the operation just invoked.
\<close>

definition resume :: "driver \<Rightarrow> BrowserManager \<Rightarrow> await_point \<Rightarrow> segment" where
  "resume d s a =
     (case a of
        ALaunch \<Rightarrow> initialize_after_launch s (launch d)
      | ANewPage b \<Rightarrow> initialize_after_newPage s (newPage d b)
      | ASetViewport p \<Rightarrow> initialize_after_setViewport s (setViewport d p)
      | APageClose p \<Rightarrow> close_after_page_close s (page_close d p)
      | ABrowserClose b \<Rightarrow> close_after_browser_close s (browser_close d b))"

definition await :: "driver \<Rightarrow> segment \<Rightarrow> segment" where
  "await d r =
     (case r of
        (s, es, Awaiting a) \<Rightarrow> (case resume d s a of (s', es', st) \<Rightarrow> (s', es @ es', st))
      | (s, es, st) \<Rightarrow> (s, es, st))"

text \<open>\<open>initialize\<close> has three suspension points and \<open>close\<close> has two.\<close>

definition initialize :: "driver \<Rightarrow> BrowserManager \<Rightarrow> segment" where
  "initialize d s = await d (await d (await d (initialize_enter s)))"

definition close :: "driver \<Rightarrow> BrowserManager \<Rightarrow> segment" where
  "close d s = await d (await d (close_enter s))"

subsection \<open>executeCommand\<close>

text \<open>
  The body of a \<open>try\<close> block: the effects so far, and either the message of the error
  thrown (\<open>Inl\<close>) or the value computed. \<open>and_then\<close> sequences two steps; a throw
  skips the steps after it and keeps the effects before it.
\<close>

type_synonym 'a attempt = "effect list \<times> (string + 'a)"

definition and_then :: "'a attempt \<Rightarrow> ('a \<Rightarrow> 'b attempt) \<Rightarrow> 'b attempt" where
  "and_then m f =
     (case m of
        (es, Inl e) \<Rightarrow> (es, Inl e)
      | (es, Inr x) \<Rightarrow> (case f x of (es', r) \<Rightarrow> (es @ es', r)))"

definition evaluated :: "string + 'a \<Rightarrow> 'a attempt" where
  "evaluated r = ([], r)"

definition invoke :: "drv_call \<Rightarrow> string + 'a \<Rightarrow> 'a attempt" where
  "invoke c r = ([Call c], r)"

definition ok_with_url :: "driver \<Rightarrow> handle \<Rightarrow> json attempt" where
  "ok_with_url d p =
     and_then (invoke (Url p) (url d p)) (\<lambda>u.
       evaluated (Inr (Obj [(''success'', Bool True), (''data'', Obj [(''url'', u)])])))"

text \<open>The \<open>switch\<close> on \<open>command.type\<close> (here \<open>t\<close>), inside the \<open>try\<close>.\<close>

definition command_switch :: "driver \<Rightarrow> handle \<Rightarrow> json \<Rightarrow> json \<Rightarrow> json attempt" where
  "command_switch d p t dat =
     (if t = Str ''navigate'' then
        and_then (evaluated (js_get dat ''url'')) (\<lambda>u.
        and_then (invoke (Goto p u) (goto d p u)) (\<lambda>_.
        ok_with_url d p))
      else if t = Str ''click'' then
        and_then (evaluated (js_get dat ''selector'')) (\<lambda>sel.
        and_then (invoke (Click p sel) (click d p sel)) (\<lambda>_.
        evaluated (Inr (Obj [(''success'', Bool True)]))))
      else if t = Str ''type'' then
        and_then (evaluated (js_get dat ''selector'')) (\<lambda>sel.
        and_then (evaluated (js_get dat ''text'')) (\<lambda>txt.
        and_then (invoke (TypeText p sel txt) (type_text d p sel txt)) (\<lambda>_.
        evaluated (Inr (Obj [(''success'', Bool True)])))))
      else if t = Str ''screenshot'' then
        (let fp = opt_prop dat ''fullPage'';
             full = (if truthy fp then fp else Bool False)
         in and_then (invoke (Screenshot p full) (screenshot d p full)) (\<lambda>shot.
            evaluated (Inr (Obj [(''success'', Bool True),
                                 (''data'', Obj [(''screenshot'', shot)])]))))
      else if t = Str ''evaluate'' then
        and_then (evaluated (js_get dat ''script'')) (\<lambda>scr.
        and_then (invoke (Evaluate p scr) (evaluate d p scr)) (\<lambda>res.
        evaluated (Inr (Obj [(''success'', Bool True), (''data'', Obj [(''result'', res)])]))))
      else if t = Str ''reload'' then
        and_then (invoke (Reload p) (reload d p)) (\<lambda>_. ok_with_url d p)
      else if t = Str ''back'' then
        and_then (invoke (GoBack p) (goBack d p)) (\<lambda>_. ok_with_url d p)
      else if t = Str ''forward'' then
        and_then (invoke (GoForward p) (goForward d p)) (\<lambda>_. ok_with_url d p)
      else
        and_then (evaluated (js_String t)) (\<lambda>shown.
        evaluated (Inr (Obj [(''success'', Bool False),
                             (''error'', Str (''Unknown command type: '' @ shown))]))))"

text \<open>The \<open>try\<close> with its \<open>catch\<close>: an error thrown inside becomes a failed response.\<close>

definition command_try :: "driver \<Rightarrow> handle \<Rightarrow> json \<Rightarrow> json \<Rightarrow> effect list \<times> json" where
  "command_try d p t dat =
     (case command_switch d p t dat of
        (es, Inr res) \<Rightarrow> (es, res)
      | (es, Inl e) \<Rightarrow>
          (es @ [Log Error ''Browser command failed'' (Some e)],
           Obj [(''success'', Bool False), (''error'', Str e)]))"

text \<open>
  \<open>executeCommand\<close> with no other call running while it is suspended. The arguments
  of the first log line read \<open>command.type\<close> and \<open>command.data\<close> outside the \<open>try\<close>:
  on a \<open>command\<close> that is \<open>undefined\<close> or \<open>null\<close> the call throws (\<open>Inl\<close>). Once
  \<open>command.type\<close> has been read, reading \<open>command.data\<close> cannot throw.
\<close>

definition executeCommand ::
  "driver \<Rightarrow> json \<Rightarrow> BrowserManager \<Rightarrow> BrowserManager \<times> effect list \<times> (string + json)" where
  "executeCommand d command s =
     (case page s of
        None \<Rightarrow>
          (s, [], Inr (Obj [(''success'', Bool False),
                            (''error'', Str ''Browser not initialized'')]))
      | Some p \<Rightarrow>
          (case js_get command ''type'' of
             Inl e \<Rightarrow> (s, [], Inl e)
           | Inr t \<Rightarrow>
               (case command_try d p t (opt_prop command ''data'') of
                  (es, res) \<Rightarrow>
                    (s, Log Info ''Executing browser command'' None # es, Inr res))))"

subsection \<open>getPageInfo\<close>

text \<open>
  Both elements of the array passed to \<open>Promise.all\<close> are evaluated first:
  \<open>title()\<close> is invoked, then \<open>url()\<close>, which is synchronous and whose error is caught
  at once; a rejection of \<open>title()\<close> is caught at the \<open>await\<close>.
\<close>

definition getPageInfo :: "driver \<Rightarrow> BrowserManager \<Rightarrow> BrowserManager \<times> effect list \<times> json" where
  "getPageInfo d s =
     (case page s of
        None \<Rightarrow> (s, [], Null)
      | Some p \<Rightarrow>
          (case and_then (invoke (Title p) (Inr ())) (\<lambda>_.
                and_then (invoke (Url p) (url d p)) (\<lambda>u.
                and_then (evaluated (title d p)) (\<lambda>ti.
                evaluated (Inr (Obj [(''title'', ti), (''url'', u)]))))) of
             (es, Inr info) \<Rightarrow> (s, es, info)
           | (es, Inl e) \<Rightarrow> (s, es @ [Log Error ''Failed to get page info'' (Some e)], Null)))"

section \<open>Interleaved lifecycle calls\<close>

text \<open>
  The scheduler: the manager's fields, the lifecycle calls made so far with the point
  each one has reached, and everything done so far. An event is a new call of
  \<open>initialize\<close> or \<open>close\<close>, which runs up to its first suspension point, or the
  driver settling the operation a suspended call waits for, which runs that call's next
  piece. The answer of the driver is part of the event, so every behaviour of the
  driver and every order of resumption is a list of events. An event for a call that
  does not wait for such an answer is not enabled and changes nothing.
\<close>

record system =
  mgr :: BrowserManager
  tasks :: "status list"
  trace :: "effect list"

datatype event =
    CallInitialize
  | CallClose
  | SettleHandle nat "string + handle"
  | SettleVoid nat "string + unit"

definition new_system :: system where
  "new_system = \<lparr>mgr = new_BrowserManager, tasks = [], trace = []\<rparr>"

definition spawn :: "system \<Rightarrow> segment \<Rightarrow> system" where
  "spawn sys r =
     (case r of (s, es, st) \<Rightarrow>
        \<lparr>mgr = s, tasks = tasks sys @ [st], trace = trace sys @ es\<rparr>)"

definition continue :: "system \<Rightarrow> nat \<Rightarrow> segment \<Rightarrow> system" where
  "continue sys i r =
     (case r of (s, es, st) \<Rightarrow>
        \<lparr>mgr = s, tasks = (tasks sys)[i := st], trace = trace sys @ es\<rparr>)"

definition step :: "system \<Rightarrow> event \<Rightarrow> system" where
  "step sys ev =
     (case ev of
        CallInitialize \<Rightarrow> spawn sys (initialize_enter (mgr sys))
      | CallClose \<Rightarrow> spawn sys (close_enter (mgr sys))
      | SettleHandle i r \<Rightarrow>
          (if i < length (tasks sys) then
             (case tasks sys ! i of
                Awaiting ALaunch \<Rightarrow> continue sys i (initialize_after_launch (mgr sys) r)
              | Awaiting (ANewPage b) \<Rightarrow> continue sys i (initialize_after_newPage (mgr sys) r)
              | _ \<Rightarrow> sys)
           else sys)
      | SettleVoid i r \<Rightarrow>
          (if i < length (tasks sys) then
             (case tasks sys ! i of
                Awaiting (ASetViewport p) \<Rightarrow>
                  continue sys i (initialize_after_setViewport (mgr sys) r)
              | Awaiting (APageClose p) \<Rightarrow> continue sys i (close_after_page_close (mgr sys) r)
              | Awaiting (ABrowserClose b) \<Rightarrow>
                  continue sys i (close_after_browser_close (mgr sys) r)
              | _ \<Rightarrow> sys)
           else sys))"

fun run :: "system \<Rightarrow> event list \<Rightarrow> system" where
  "run sys [] = sys"
| "run sys (ev # evs) = run (step sys ev) evs"

text \<open>The calls of \<open>initialize\<close> that are suspended, and those suspended at the launch.\<close>

fun initializing_task :: "status \<Rightarrow> bool" where
  "initializing_task (Awaiting ALaunch) = True"
| "initializing_task (Awaiting (ANewPage b)) = True"
| "initializing_task (Awaiting (ASetViewport p)) = True"
| "initializing_task st = False"

definition initializations_in_flight :: "system \<Rightarrow> nat" where
  "initializations_in_flight sys = length (filter initializing_task (tasks sys))"

definition launches_in_flight :: "system \<Rightarrow> nat" where
  "launches_in_flight sys = length (filter (\<lambda>st. st = Awaiting ALaunch) (tasks sys))"

section \<open>WargServer (server.ts): the WebSocket side\<close>

datatype readyState = CONNECTING | OPEN | CLOSING | CLOSED

text \<open>
  \<open>connectedClients\<close> is a \<open>Set\<close>: it holds an object once and iterates in insertion
  order.
\<close>

record WargServer =
  browserManager :: BrowserManager
  connectedClients :: "ws list"

definition new_WargServer :: WargServer where
  "new_WargServer = \<lparr>browserManager = new_BrowserManager, connectedClients = []\<rparr>"

definition set_add :: "ws \<Rightarrow> ws list \<Rightarrow> ws list" where
  "set_add w cs = (if w \<in> set cs then cs else cs @ [w])"

definition set_delete :: "ws \<Rightarrow> ws list \<Rightarrow> ws list" where
  "set_delete w cs = filter (\<lambda>c. c \<noteq> w) cs"





text \<open>The \<open>connection\<close> handler, up to the registration of the socket's own handlers.\<close>

definition on_connection :: "WargServer \<Rightarrow> ws \<Rightarrow> WargServer \<times> effect list" where
  "on_connection srv w =
     (let cs = set_add w (connectedClients srv)
      in (srv\<lparr>connectedClients := cs\<rparr>,
          [Log Info ''WebSocket client connected'' None,
           Send w (Obj [(''type'', Str ''status''),
                        (''data'', Obj [(''initialized'', Bool (isInitialized (browserManager srv))),
                                        (''connectedClients'', Num (size_number (length cs)))])])]))"

definition on_close :: "WargServer \<Rightarrow> ws \<Rightarrow> WargServer \<times> effect list" where
  "on_close srv w =
     (srv\<lparr>connectedClients := set_delete w (connectedClients srv)\<rparr>,
      [Log Info ''WebSocket client disconnected'' None])"



section \<open>Concrete drivers, states and messages\<close>

text \<open>A driver every operation of which succeeds, and the manager after a successful start.\<close>

definition ok_driver :: driver where
  "ok_driver =
     \<lparr>launch = Inr 1, newPage = (\<lambda>b. Inr 2), setViewport = (\<lambda>p. Inr ()),
      page_close = (\<lambda>p. Inr ()), browser_close = (\<lambda>b. Inr ()),
      goto = (\<lambda>p u. Inr ()), click = (\<lambda>p sel. Inr ()), type_text = (\<lambda>p sel txt. Inr ()),
      screenshot = (\<lambda>p full. Inr (Str ''iVBORw0KGgo='')),
      evaluate = (\<lambda>p scr. Inr (Num (Number ''2'' True))),
      reload = (\<lambda>p. Inr ()), goBack = (\<lambda>p. Inr ()), goForward = (\<lambda>p. Inr ()),
      url = (\<lambda>p. Inr (Str ''https://example.com/'')),
      title = (\<lambda>p. Inr (Str ''Example Domain''))\<rparr>"

definition ready_manager :: BrowserManager where
  "ready_manager = \<lparr>browser = Some 1, page = Some 2, isInitializing = False\<rparr>"




section \<open>Notions the properties are stated with\<close>

text \<open>Whether the driver releases the page, and the browser, that the manager holds.\<close>

definition page_release_ok :: "driver \<Rightarrow> BrowserManager \<Rightarrow> bool" where
  "page_release_ok d s = (case page s of None \<Rightarrow> True | Some p \<Rightarrow> page_close d p = Inr ())"

definition browser_release_ok :: "driver \<Rightarrow> BrowserManager \<Rightarrow> bool" where
  "browser_release_ok d s =
     (case browser s of None \<Rightarrow> True | Some b \<Rightarrow> browser_close d b = Inr ())"

text \<open>
  Lifecycle calls made one after the other, each with the driver as it answers during
  that call, and the fields they leave.
\<close>

datatype lifecycle_call = Initialize driver | Close driver

fun lifecycle :: "BrowserManager \<Rightarrow> lifecycle_call list \<Rightarrow> BrowserManager" where
  "lifecycle s [] = s"
| "lifecycle s (Initialize d # cs) = lifecycle (fst (initialize d s)) cs"
| "lifecycle s (Close d # cs) = lifecycle (fst (close d s)) cs"

text \<open>Between two such calls no initialization is running and a page has its browser.\<close>

definition settled :: "BrowserManager \<Rightarrow> bool" where
  "settled s = (\<not> isInitializing s \<and> (page s = None \<or> browser s \<noteq> None))"

text \<open>The values of \<open>BrowserCommand.type\<close>.\<close>

definition command_types :: "string list" where
  "command_types =
     [''navigate'', ''click'', ''type'', ''screenshot'', ''evaluate'', ''reload'', ''back'',
      ''forward'']"

text \<open>All messages sent, with their receivers, in order.\<close>

definition sends_of :: "effect list \<Rightarrow> (ws \<times> json) list" where
  "sends_of es = concat (map (\<lambda>e. case e of Send w m \<Rightarrow> [(w, m)] | _ \<Rightarrow> []) es)"

text \<open>The flag \<open>isInitializing\<close> is set exactly while one call of \<open>initialize\<close> is suspended.\<close>

definition single_flight :: "system \<Rightarrow> bool" where
  "single_flight sys =
     (initializations_in_flight sys = (if isInitializing (mgr sys) then 1 else 0))"

section \<open>Lifecycle calls run to completion\<close>

lemmas lifecycle_defs =
  initialize_def close_def await_def resume_def initialize_enter_def initialize_after_launch_def
  initialize_after_newPage_def initialize_after_setViewport_def initialize_catch_def
  close_enter_def close_browser_def close_after_page_close_def close_after_browser_close_def
  close_catch_def

text \<open>
  Three continuations are enough for \<open>initialize\<close> and two for \<open>close\<close>: a call that
  nothing interleaves with has returned or thrown, it is never left suspended.
\<close>

lemma initialize_not_suspended: "snd (snd (initialize d s)) \<noteq> Awaiting a"
  by (simp add: lifecycle_defs split: sum.splits option.splits)

lemma close_not_suspended: "snd (snd (close d s)) \<noteq> Awaiting a"
  by (simp add: lifecycle_defs split: sum.splits option.splits)

subsection \<open>close\<close>

text \<open>
  C1, as claimed, fails. With a page and a browser live and a driver whose
  \<open>page.close()\<close> rejects, \<open>close\<close> logs the error and rethrows it; the browser is never
  asked to close and both handles stay as they were, so the manager is not
  Uninitialized afterwards.
\<close>

theorem close_teardown_failure_counterexample:
  "close (ok_driver\<lparr>page_close := (\<lambda>p. Inl ''Protocol error: Target closed'')\<rparr>) ready_manager =
     (ready_manager,
      [Log Info ''Closing browser'' None, Call (PageClose 2),
       Log Error ''Error closing browser'' (Some ''Protocol error: Target closed'')],
      Threw ''Protocol error: Target closed'')
   \<and> \<not> (browser (fst (close (ok_driver\<lparr>page_close := (\<lambda>p. Inl ''Protocol error: Target closed'')\<rparr>)
                          ready_manager)) = None
        \<and> page (fst (close (ok_driver\<lparr>page_close := (\<lambda>p. Inl ''Protocol error: Target closed'')\<rparr>)
                          ready_manager)) = None)"
  by (simp add: lifecycle_defs ok_driver_def ready_manager_def)

text \<open>
  \<open>close\<close> tests \<open>this.page\<close> once, before its first \<open>await\<close>. Here a call of
  \<open>initialize\<close> is suspended at \<open>newPage\<close> when \<open>close\<close> is called; \<open>close\<close>
  finds no page and awaits the browser's release; the page arrives meanwhile; \<open>close\<close>
  then nulls the browser handle and returns, with the page handle live.
\<close>

lemma close_while_initialize_suspended:
  "run new_system
     [CallInitialize, SettleHandle 0 (Inr 1), CallClose, SettleHandle 0 (Inr 2),
      SettleVoid 1 (Inr ())] =
     \<lparr>mgr = \<lparr>browser = None, page = Some 2, isInitializing = True\<rparr>,
      tasks = [Awaiting (ASetViewport 2), Returned],
      trace =
        [Log Info ''Initializing browser'' None, Call Launch, Call (NewPage 1),
         Log Info ''Closing browser'' None, Call (BrowserClose 1), Call (SetViewport 2),
         Log Info ''Browser closed successfully'' None]\<rparr>"
  by (simp add: step_def spawn_def continue_def new_system_def new_BrowserManager_def
      initialize_enter_def initialize_after_launch_def initialize_after_newPage_def
      close_enter_def close_browser_def close_after_browser_close_def)

text \<open>
  C1, amended. A call of \<open>close\<close> that no other call interleaves with, from every
  state of the fields: it leaves both handles null and returns when each release it
  needs succeeds; when the page's release fails, the error is logged and rethrown, the
  browser's release is not attempted and no field changes; when the page is released
  (or there is none) and the browser's release fails, the error is logged and
  rethrown, the page handle is null and the browser handle is kept.
  Whatever else runs while \<open>close\<close> is suspended, for the fields \<open>s'\<close> as they are
  when it resumes: a failed release of the page or of the browser is logged and
  rethrown and assigns no field; a successful release of the browser nulls the browser
  handle, assigns nothing else, and \<open>close\<close> returns; a successful release of the page
  nulls the page handle. A \<open>close\<close> that returns without having awaited the browser's
  release leaves both handles null; one that returns after it leaves the browser handle
  null, and the page handle as it is then.
\<close>

theorem close_outcomes:
  "(page_release_ok d s \<and> browser_release_ok d s \<longrightarrow>
      fst (close d s) = s\<lparr>page := None, browser := None\<rparr> \<and> snd (snd (close d s)) = Returned)
   \<and> (page s = Some p \<and> page_close d p = Inl e \<longrightarrow>
      close d s =
        (s, [Log Info ''Closing browser'' None, Call (PageClose p),
             Log Error ''Error closing browser'' (Some e)],
         Threw e))
   \<and> (page_release_ok d s \<and> browser s = Some b \<and> browser_close d b = Inl e \<longrightarrow>
      fst (close d s) = s\<lparr>page := None\<rparr> \<and> snd (snd (close d s)) = Threw e
      \<and> last (fst (snd (close d s))) = Log Error ''Error closing browser'' (Some e))
   \<and> close_after_page_close s' (Inl e) =
       (s', [Log Error ''Error closing browser'' (Some e)], Threw e)
   \<and> close_after_browser_close s' (Inl e) =
       (s', [Log Error ''Error closing browser'' (Some e)], Threw e)
   \<and> close_after_browser_close s' (Inr u) =
       (s'\<lparr>browser := None\<rparr>, [Log Info ''Browser closed successfully'' None], Returned)
   \<and> fst (close_after_page_close s' (Inr u)) = s'\<lparr>page := None\<rparr>
   \<and> (snd (snd (close_enter s')) = Returned \<longrightarrow>
        fst (close_enter s') = s' \<and> page s' = None \<and> browser s' = None)
   \<and> (snd (snd (close_after_page_close s' r)) = Returned \<longrightarrow>
        page (fst (close_after_page_close s' r)) = None
        \<and> browser (fst (close_after_page_close s' r)) = None)"
proof -
  have alone:
    "(page_release_ok d s \<and> browser_release_ok d s \<longrightarrow>
        fst (close d s) = s\<lparr>page := None, browser := None\<rparr> \<and> snd (snd (close d s)) = Returned)
     \<and> (page s = Some p \<and> page_close d p = Inl e \<longrightarrow>
        close d s =
          (s, [Log Info ''Closing browser'' None, Call (PageClose p),
               Log Error ''Error closing browser'' (Some e)],
           Threw e))
     \<and> (page_release_ok d s \<and> browser s = Some b \<and> browser_close d b = Inl e \<longrightarrow>
        fst (close d s) = s\<lparr>page := None\<rparr> \<and> snd (snd (close d s)) = Threw e
        \<and> last (fst (snd (close d s))) = Log Error ''Error closing browser'' (Some e))"
    by (auto simp add: lifecycle_defs page_release_ok_def browser_release_ok_def
        split: sum.splits option.splits)
  have failed:
    "close_after_page_close s' (Inl e) =
       (s', [Log Error ''Error closing browser'' (Some e)], Threw e)"
    "close_after_browser_close s' (Inl e) =
       (s', [Log Error ''Error closing browser'' (Some e)], Threw e)"
    by (simp_all add: close_after_page_close_def close_after_browser_close_def close_catch_def)
  have released:
    "close_after_browser_close s' (Inr u) =
       (s'\<lparr>browser := None\<rparr>, [Log Info ''Browser closed successfully'' None], Returned)"
    "fst (close_after_page_close s' (Inr u)) = s'\<lparr>page := None\<rparr>"
    by (simp_all add: close_after_page_close_def close_after_browser_close_def close_browser_def
        split: option.splits)
  have returned:
    "snd (snd (close_enter s')) = Returned \<longrightarrow>
       fst (close_enter s') = s' \<and> page s' = None \<and> browser s' = None"
    "snd (snd (close_after_page_close s' r)) = Returned \<longrightarrow>
       page (fst (close_after_page_close s' r)) = None
       \<and> browser (fst (close_after_page_close s' r)) = None"
    by (auto simp add: close_enter_def close_after_page_close_def close_browser_def
        close_catch_def split: option.splits sum.splits)
  from alone failed released returned show ?thesis
    by blast
qed

theorem close_outcomes_witness:
  "page_release_ok ok_driver ready_manager \<and> browser_release_ok ok_driver ready_manager
   \<and> fst (close ok_driver ready_manager) = new_BrowserManager
   \<and> snd (snd (close ok_driver ready_manager)) = Returned
   \<and> page ready_manager = Some 2
   \<and> page_close (ok_driver\<lparr>page_close := (\<lambda>p. Inl ''Target closed'')\<rparr>) 2 = Inl ''Target closed''
   \<and> fst (close (ok_driver\<lparr>page_close := (\<lambda>p. Inl ''Target closed'')\<rparr>) ready_manager) = ready_manager
   \<and> page_release_ok (ok_driver\<lparr>browser_close := (\<lambda>b. Inl ''Connection closed'')\<rparr>) ready_manager
   \<and> browser ready_manager = Some 1
   \<and> browser_close (ok_driver\<lparr>browser_close := (\<lambda>b. Inl ''Connection closed'')\<rparr>) 1
       = Inl ''Connection closed''
   \<and> fst (close (ok_driver\<lparr>browser_close := (\<lambda>b. Inl ''Connection closed'')\<rparr>) ready_manager)
       = \<lparr>browser = Some 1, page = None, isInitializing = False\<rparr>
   \<and> snd (snd (close (ok_driver\<lparr>browser_close := (\<lambda>b. Inl ''Connection closed'')\<rparr>) ready_manager))
       = Threw ''Connection closed''
   \<and> snd (snd (close_enter new_BrowserManager)) = Returned
   \<and> page new_BrowserManager = None \<and> browser new_BrowserManager = None
   \<and> snd (snd (close_after_page_close \<lparr>browser = None, page = Some 2, isInitializing = False\<rparr>
                  (Inr ()))) = Returned
   \<and> fst (close_after_page_close \<lparr>browser = None, page = Some 2, isInitializing = False\<rparr> (Inr ()))
       = new_BrowserManager
   \<and> close_after_browser_close \<lparr>browser = Some 1, page = Some 2, isInitializing = True\<rparr> (Inr ())
       = (\<lparr>browser = None, page = Some 2, isInitializing = True\<rparr>,
          [Log Info ''Browser closed successfully'' None], Returned)"
proof -
  let ?no_page = "ok_driver\<lparr>page_close := (\<lambda>p. Inl ''Target closed'')\<rparr>"
  let ?no_browser = "ok_driver\<lparr>browser_close := (\<lambda>b. Inl ''Connection closed'')\<rparr>"
  let ?page_only = "\<lparr>browser = None, page = Some 2, isInitializing = False\<rparr>"
  let ?racing = "\<lparr>browser = Some 1, page = Some 2, isInitializing = True\<rparr>"
  have ok: "page_release_ok ok_driver ready_manager" "browser_release_ok ok_driver ready_manager"
    by (simp_all add: page_release_ok_def browser_release_ok_def ok_driver_def ready_manager_def)
  have handles: "page ready_manager = Some 2" "browser ready_manager = Some 1"
    by (simp_all add: ready_manager_def)
  have np: "page_close ?no_page 2 = Inl ''Target closed''"
    by simp
  have nb: "page_release_ok ?no_browser ready_manager"
    "browser_close ?no_browser 1 = Inl ''Connection closed''"
    by (simp_all add: page_release_ok_def ok_driver_def ready_manager_def)
  have upd: "ready_manager\<lparr>page := None, browser := None\<rparr> = new_BrowserManager"
    "ready_manager\<lparr>page := None\<rparr> = \<lparr>browser = Some 1, page = None, isInitializing = False\<rparr>"
    "?page_only\<lparr>page := None\<rparr> = new_BrowserManager"
    "?racing\<lparr>browser := None\<rparr> = \<lparr>browser = None, page = Some 2, isInitializing = True\<rparr>"
    by (simp_all add: ready_manager_def new_BrowserManager_def)
  have ret: "snd (snd (close_enter new_BrowserManager)) = Returned"
    "snd (snd (close_after_page_close ?page_only (Inr ()))) = Returned"
    by (simp_all add: close_enter_def close_after_page_close_def close_browser_def
        new_BrowserManager_def)
  from close_outcomes [of ok_driver ready_manager 2 "''x''" 1 new_BrowserManager "()" "Inr ()"]
    ok upd(1) ret(1)
  have a: "fst (close ok_driver ready_manager) = new_BrowserManager"
    "snd (snd (close ok_driver ready_manager)) = Returned"
    "page new_BrowserManager = None" "browser new_BrowserManager = None"
    by simp_all
  from close_outcomes [of ?no_page ready_manager 2 "''Target closed''" 1 ?page_only "()" "Inr ()"]
    handles(1) np upd(3)
  have b: "fst (close ?no_page ready_manager) = ready_manager"
    "fst (close_after_page_close ?page_only (Inr ())) = new_BrowserManager"
    by simp_all
  from close_outcomes [of ?no_browser ready_manager 2 "''Connection closed''" 1 ?racing "()" "Inr ()"]
    handles(2) nb upd(2,4)
  have c: "fst (close ?no_browser ready_manager) = \<lparr>browser = Some 1, page = None, isInitializing = False\<rparr>"
    "snd (snd (close ?no_browser ready_manager)) = Threw ''Connection closed''"
    "close_after_browser_close ?racing (Inr ())
       = (\<lparr>browser = None, page = Some 2, isInitializing = True\<rparr>,
          [Log Info ''Browser closed successfully'' None], Returned)"
    by simp_all
  from ok handles np nb ret a b c show ?thesis
    by blast
qed

text \<open>
  C5: \<open>close\<close> called with both handles null returns normally, leaves every field as
  it was and invokes no operation of the driver; it only logs two lines.
\<close>

theorem close_uninitialized_noop:
  assumes "browser s = None" and "page s = None"
  shows "close d s =
           (s, [Log Info ''Closing browser'' None, Log Info ''Browser closed successfully'' None],
            Returned)
         \<and> calls_of (fst (snd (close d s))) = []"
  using assms by (simp add: lifecycle_defs calls_of_def)

theorem close_uninitialized_noop_witness:
  "browser new_BrowserManager = None \<and> page new_BrowserManager = None \<and>
   close ok_driver new_BrowserManager =
     (new_BrowserManager,
      [Log Info ''Closing browser'' None, Log Info ''Browser closed successfully'' None],
      Returned) \<and>
   calls_of (fst (snd (close ok_driver new_BrowserManager))) = []"
proof -
  have a: "browser new_BrowserManager = None" and b: "page new_BrowserManager = None"
    by (simp_all add: new_BrowserManager_def)
  from close_uninitialized_noop [OF a b, of ok_driver] a b show ?thesis
    by blast
qed

text \<open>
  C7: with a page and a browser live, \<open>close\<close> first invokes the page's close and is
  suspended at it, having invoked nothing else; the browser's close is invoked only by
  the piece that runs once the page's close has succeeded. So the operations a whole
  call invokes are the page's close followed by the browser's, or the page's close
  alone when it fails.
\<close>

theorem close_page_before_browser:
  assumes "page s = Some p" and "browser s = Some b"
  shows "close_enter s =
           (s, [Log Info ''Closing browser'' None, Call (PageClose p)], Awaiting (APageClose p))
         \<and> calls_of (fst (snd (close_after_page_close s r))) =
             (case r of Inl e \<Rightarrow> [] | Inr u \<Rightarrow> [BrowserClose b])
         \<and> calls_of (fst (snd (close d s))) =
             (case page_close d p of
                Inl e \<Rightarrow> [PageClose p]
              | Inr u \<Rightarrow> [PageClose p, BrowserClose b])"
  using assms by (simp add: lifecycle_defs calls_of_def split: sum.splits)

theorem close_page_before_browser_witness:
  "page ready_manager = Some 2 \<and> browser ready_manager = Some 1
   \<and> calls_of (fst (snd (close ok_driver ready_manager))) = [PageClose 2, BrowserClose 1]
   \<and> calls_of (fst (snd (close (ok_driver\<lparr>page_close := (\<lambda>p. Inl ''Target closed'')\<rparr>)
                             ready_manager))) = [PageClose 2]"
proof -
  have a: "page ready_manager = Some 2" and b: "browser ready_manager = Some 1"
    by (simp_all add: ready_manager_def)
  have ok: "page_close ok_driver 2 = Inr ()"
    by (simp add: ok_driver_def)
  have bad: "page_close (ok_driver\<lparr>page_close := (\<lambda>p. Inl ''Target closed'')\<rparr>) 2 = Inl ''Target closed''"
    by simp
  from close_page_before_browser [OF a b, of "Inr ()" ok_driver] ok
  have c: "calls_of (fst (snd (close ok_driver ready_manager))) = [PageClose 2, BrowserClose 1]"
    by simp
  from close_page_before_browser [OF a b, of "Inr ()"
      "ok_driver\<lparr>page_close := (\<lambda>p. Inl ''Target closed'')\<rparr>"] bad
  have d: "calls_of (fst (snd (close (ok_driver\<lparr>page_close := (\<lambda>p. Inl ''Target closed'')\<rparr>)
                             ready_manager))) = [PageClose 2]"
    by simp
  from a b c d show ?thesis
    by blast
qed

subsection \<open>initialize\<close>

text \<open>
  C4: the \<open>catch\<close> and \<open>finally\<close> blocks serve the three awaited operations alike.
  When the launch, the opening of the page or the setting of the viewport fails (a
  timeout is such a failure), the piece of \<open>initialize\<close> that resumes nulls both
  handles, whatever the fields were and whatever handle had been obtained, clears the
  flag, logs the error and rethrows it; no piece of \<open>initialize\<close> throws otherwise than
  through them. A call of \<open>initialize\<close> that found no initialization running and no
  browser therefore ends, at each of the three failures, with both handles null and the
  flag cleared, having invoked the operations up to the failing one and thrown its
  error. After a call that has thrown, the next call starts a launch of its own and,
  when the driver then succeeds, leaves the manager ready.
\<close>

theorem initialize_failure_resets:
  assumes "\<not> isInitializing s" and "browser s = None"
  shows "initialize_after_launch s' (Inl e) =
           (new_BrowserManager, [Log Error ''Failed to initialize browser'' (Some e)], Threw e)
         \<and> initialize_after_newPage s' (Inl e) =
           (new_BrowserManager, [Log Error ''Failed to initialize browser'' (Some e)], Threw e)
         \<and> initialize_after_setViewport s' (Inl e) =
           (new_BrowserManager, [Log Error ''Failed to initialize browser'' (Some e)], Threw e)
         \<and> (snd (snd (initialize_after_launch s' rh)) = Threw e \<longrightarrow>
              fst (initialize_after_launch s' rh) = new_BrowserManager)
         \<and> (snd (snd (initialize_after_newPage s' rh)) = Threw e \<longrightarrow>
              fst (initialize_after_newPage s' rh) = new_BrowserManager)
         \<and> (snd (snd (initialize_after_setViewport s' rv)) = Threw e \<longrightarrow>
              fst (initialize_after_setViewport s' rv) = new_BrowserManager)
         \<and> (launch d = Inl e \<longrightarrow>
              initialize d s =
                (new_BrowserManager,
                 [Log Info ''Initializing browser'' None, Call Launch,
                  Log Error ''Failed to initialize browser'' (Some e)],
                 Threw e))
         \<and> (launch d = Inr b \<and> newPage d b = Inl e \<longrightarrow>
              initialize d s =
                (new_BrowserManager,
                 [Log Info ''Initializing browser'' None, Call Launch, Call (NewPage b),
                  Log Error ''Failed to initialize browser'' (Some e)],
                 Threw e))
         \<and> (launch d = Inr b \<and> newPage d b = Inr p \<and> setViewport d p = Inl e \<longrightarrow>
              initialize d s =
                (new_BrowserManager,
                 [Log Info ''Initializing browser'' None, Call Launch, Call (NewPage b),
                  Call (SetViewport p), Log Error ''Failed to initialize browser'' (Some e)],
                 Threw e))
         \<and> (snd (snd (initialize d s)) = Threw e \<longrightarrow>
              fst (initialize d s) = new_BrowserManager
              \<and> take 2 (fst (snd (initialize d' (fst (initialize d s))))) =
                  [Log Info ''Initializing browser'' None, Call Launch]
              \<and> (launch d' = Inr b \<and> newPage d' b = Inr p \<and> setViewport d' p = Inr () \<longrightarrow>
                   fst (initialize d' (fst (initialize d s))) =
                     \<lparr>browser = Some b, page = Some p, isInitializing = False\<rparr>
                   \<and> snd (snd (initialize d' (fst (initialize d s)))) = Returned))"
proof -
  have pieces:
    "initialize_after_launch s' (Inl e) =
       (new_BrowserManager, [Log Error ''Failed to initialize browser'' (Some e)], Threw e)"
    "initialize_after_newPage s' (Inl e) =
       (new_BrowserManager, [Log Error ''Failed to initialize browser'' (Some e)], Threw e)"
    "initialize_after_setViewport s' (Inl e) =
       (new_BrowserManager, [Log Error ''Failed to initialize browser'' (Some e)], Threw e)"
    by (simp_all add: initialize_after_launch_def initialize_after_newPage_def
        initialize_after_setViewport_def initialize_catch_def new_BrowserManager_def)
  have thrown:
    "snd (snd (initialize_after_launch s' rh)) = Threw e \<longrightarrow>
       fst (initialize_after_launch s' rh) = new_BrowserManager"
    "snd (snd (initialize_after_newPage s' rh)) = Threw e \<longrightarrow>
       fst (initialize_after_newPage s' rh) = new_BrowserManager"
    "snd (snd (initialize_after_setViewport s' rv)) = Threw e \<longrightarrow>
       fst (initialize_after_setViewport s' rv) = new_BrowserManager"
    by (auto simp add: initialize_after_launch_def initialize_after_newPage_def
        initialize_after_setViewport_def initialize_catch_def new_BrowserManager_def
        split: sum.splits option.splits)
  have whole:
    "launch d = Inl e \<longrightarrow>
       initialize d s =
         (new_BrowserManager,
          [Log Info ''Initializing browser'' None, Call Launch,
           Log Error ''Failed to initialize browser'' (Some e)],
          Threw e)"
    "launch d = Inr b \<and> newPage d b = Inl e \<longrightarrow>
       initialize d s =
         (new_BrowserManager,
          [Log Info ''Initializing browser'' None, Call Launch, Call (NewPage b),
           Log Error ''Failed to initialize browser'' (Some e)],
          Threw e)"
    "launch d = Inr b \<and> newPage d b = Inr p \<and> setViewport d p = Inl e \<longrightarrow>
       initialize d s =
         (new_BrowserManager,
          [Log Info ''Initializing browser'' None, Call Launch, Call (NewPage b),
           Call (SetViewport p), Log Error ''Failed to initialize browser'' (Some e)],
          Threw e)"
    using assms by (simp_all add: lifecycle_defs new_BrowserManager_def)
  have reset: "snd (snd (initialize d s)) = Threw e \<longrightarrow> fst (initialize d s) = new_BrowserManager"
    by (auto simp add: lifecycle_defs new_BrowserManager_def split: sum.splits option.splits)
  have again:
    "take 2 (fst (snd (initialize d' new_BrowserManager))) =
       [Log Info ''Initializing browser'' None, Call Launch]"
    "launch d' = Inr b \<and> newPage d' b = Inr p \<and> setViewport d' p = Inr () \<longrightarrow>
       fst (initialize d' new_BrowserManager) =
         \<lparr>browser = Some b, page = Some p, isInitializing = False\<rparr>
       \<and> snd (snd (initialize d' new_BrowserManager)) = Returned"
    by (simp_all add: lifecycle_defs new_BrowserManager_def split: sum.splits option.splits)
  from reset again
  have retry: "snd (snd (initialize d s)) = Threw e \<longrightarrow>
      fst (initialize d s) = new_BrowserManager
      \<and> take 2 (fst (snd (initialize d' (fst (initialize d s))))) =
          [Log Info ''Initializing browser'' None, Call Launch]
      \<and> (launch d' = Inr b \<and> newPage d' b = Inr p \<and> setViewport d' p = Inr () \<longrightarrow>
           fst (initialize d' (fst (initialize d s))) =
             \<lparr>browser = Some b, page = Some p, isInitializing = False\<rparr>
           \<and> snd (snd (initialize d' (fst (initialize d s)))) = Returned)"
    by simp
  from pieces thrown whole retry show ?thesis
    by blast
qed

theorem initialize_failure_resets_witness:
  "\<not> isInitializing new_BrowserManager \<and> browser new_BrowserManager = None
   \<and> launch (ok_driver\<lparr>launch := Inl ''Timed out after 30000 ms''\<rparr>) = Inl ''Timed out after 30000 ms''
   \<and> initialize (ok_driver\<lparr>launch := Inl ''Timed out after 30000 ms''\<rparr>) new_BrowserManager =
       (new_BrowserManager,
        [Log Info ''Initializing browser'' None, Call Launch,
         Log Error ''Failed to initialize browser'' (Some ''Timed out after 30000 ms'')],
        Threw ''Timed out after 30000 ms'')
   \<and> fst (initialize ok_driver
            (fst (initialize (ok_driver\<lparr>launch := Inl ''Timed out after 30000 ms''\<rparr>)
                    new_BrowserManager))) = ready_manager
   \<and> launch (ok_driver\<lparr>newPage := (\<lambda>b. Inl ''Target closed'')\<rparr>) = Inr 1
   \<and> newPage (ok_driver\<lparr>newPage := (\<lambda>b. Inl ''Target closed'')\<rparr>) 1 = Inl ''Target closed''
   \<and> initialize (ok_driver\<lparr>newPage := (\<lambda>b. Inl ''Target closed'')\<rparr>) new_BrowserManager =
       (new_BrowserManager,
        [Log Info ''Initializing browser'' None, Call Launch, Call (NewPage 1),
         Log Error ''Failed to initialize browser'' (Some ''Target closed'')],
        Threw ''Target closed'')
   \<and> launch (ok_driver\<lparr>setViewport := (\<lambda>p. Inl ''Session closed'')\<rparr>) = Inr 1
   \<and> newPage (ok_driver\<lparr>setViewport := (\<lambda>p. Inl ''Session closed'')\<rparr>) 1 = Inr 2
   \<and> setViewport (ok_driver\<lparr>setViewport := (\<lambda>p. Inl ''Session closed'')\<rparr>) 2 = Inl ''Session closed''
   \<and> initialize (ok_driver\<lparr>setViewport := (\<lambda>p. Inl ''Session closed'')\<rparr>) new_BrowserManager =
       (new_BrowserManager,
        [Log Info ''Initializing browser'' None, Call Launch, Call (NewPage 1),
         Call (SetViewport 2),
         Log Error ''Failed to initialize browser'' (Some ''Session closed'')],
        Threw ''Session closed'')
   \<and> snd (snd (initialize_after_setViewport \<lparr>browser = Some 1, page = None, isInitializing = True\<rparr>
                  (Inr ()))) = Threw (cannot_read ''null'' ''on'')
   \<and> fst (initialize_after_setViewport \<lparr>browser = Some 1, page = None, isInitializing = True\<rparr>
             (Inr ())) = new_BrowserManager"
proof -
  let ?no_launch = "ok_driver\<lparr>launch := Inl ''Timed out after 30000 ms''\<rparr>"
  let ?no_page = "ok_driver\<lparr>newPage := (\<lambda>b. Inl ''Target closed'')\<rparr>"
  let ?no_viewport = "ok_driver\<lparr>setViewport := (\<lambda>p. Inl ''Session closed'')\<rparr>"
  let ?pageless = "\<lparr>browser = Some 1, page = None, isInitializing = True\<rparr>"
  have a: "\<not> isInitializing new_BrowserManager" and b: "browser new_BrowserManager = None"
    by (simp_all add: new_BrowserManager_def)
  have l: "launch ?no_launch = Inl ''Timed out after 30000 ms''"
    by simp
  have ok: "launch ok_driver = Inr 1 \<and> newPage ok_driver 1 = Inr 2 \<and> setViewport ok_driver 2 = Inr ()"
    by (simp add: ok_driver_def)
  have n: "launch ?no_page = Inr 1" "newPage ?no_page 1 = Inl ''Target closed''"
    by (simp_all add: ok_driver_def)
  have v: "launch ?no_viewport = Inr 1" "newPage ?no_viewport 1 = Inr 2"
    "setViewport ?no_viewport 2 = Inl ''Session closed''"
    by (simp_all add: ok_driver_def)
  have q: "snd (snd (initialize_after_setViewport ?pageless (Inr ()))) = Threw (cannot_read ''null'' ''on'')"
    by (simp add: initialize_after_setViewport_def initialize_catch_def)
  note t1 = initialize_failure_resets [OF a b, of new_BrowserManager "''Timed out after 30000 ms''"
      "Inr 1" "Inr ()" ?no_launch 1 2 ok_driver]
  note t2 = initialize_failure_resets [OF a b, of new_BrowserManager "''Target closed''"
      "Inr 1" "Inr ()" ?no_page 1 2 ok_driver]
  note t3 = initialize_failure_resets [OF a b, of new_BrowserManager "''Session closed''"
      "Inr 1" "Inr ()" ?no_viewport 1 2 ok_driver]
  note t4 = initialize_failure_resets [OF a b, of ?pageless "cannot_read ''null'' ''on''"
      "Inr 1" "Inr ()" ok_driver 1 2 ok_driver]
  from t1 l have c1: "initialize ?no_launch new_BrowserManager =
       (new_BrowserManager,
        [Log Info ''Initializing browser'' None, Call Launch,
         Log Error ''Failed to initialize browser'' (Some ''Timed out after 30000 ms'')],
        Threw ''Timed out after 30000 ms'')"
    by blast
  then have thrown: "snd (snd (initialize ?no_launch new_BrowserManager)) = Threw ''Timed out after 30000 ms''"
    by simp
  from t1 thrown ok have c2: "fst (initialize ok_driver (fst (initialize ?no_launch new_BrowserManager)))
      = \<lparr>browser = Some 1, page = Some 2, isInitializing = False\<rparr>"
    by blast
  from t2 n have c3: "initialize ?no_page new_BrowserManager =
       (new_BrowserManager,
        [Log Info ''Initializing browser'' None, Call Launch, Call (NewPage 1),
         Log Error ''Failed to initialize browser'' (Some ''Target closed'')],
        Threw ''Target closed'')"
    by blast
  from t3 v have c4: "initialize ?no_viewport new_BrowserManager =
       (new_BrowserManager,
        [Log Info ''Initializing browser'' None, Call Launch, Call (NewPage 1),
         Call (SetViewport 2),
         Log Error ''Failed to initialize browser'' (Some ''Session closed'')],
        Threw ''Session closed'')"
    by blast
  from t4 q have c5: "fst (initialize_after_setViewport ?pageless (Inr ())) = new_BrowserManager"
    by blast
  from a b l n v q c1 c2 c3 c4 c5 show ?thesis
    unfolding ready_manager_def by blast
qed

subsection \<open>The states between lifecycle calls\<close>

lemma initialize_settled: "settled s \<Longrightarrow> settled (fst (initialize d s))"
  by (auto simp add: lifecycle_defs settled_def split: sum.splits option.splits)

lemma close_settled: "settled s \<Longrightarrow> settled (fst (close d s))"
  by (auto simp add: lifecycle_defs settled_def split: sum.splits option.splits)

lemma lifecycle_settled: "settled s \<Longrightarrow> settled (lifecycle s cs)"
proof (induction cs arbitrary: s)
  case Nil
  then show ?case by simp
next
  case (Cons c cs)
  then show ?case
    by (cases c) (simp_all add: initialize_settled close_settled)
qed

lemma settled_not_ready: "settled s \<Longrightarrow> \<not> isInitialized s \<Longrightarrow> page s = None"
  by (auto simp add: settled_def isInitialized_def)

subsection \<open>executeCommand and getPageInfo\<close>

lemma executeCommand_without_page:
  "page s = None \<Longrightarrow>
   executeCommand d command s =
     (s, [], Inr (Obj [(''success'', Bool False), (''error'', Str ''Browser not initialized'')]))"
  by (simp add: executeCommand_def)

text \<open>
  C3: for every command, \<open>executeCommand\<close> called with no live page handle returns the
  failed response \<open>Browser not initialized\<close> at once: it invokes no operation of the
  driver (it has no effect at all, not even a log line) and leaves every field as it
  was. No live page handle is what not being ready comes to: after any sequence of
  \<open>initialize\<close> and \<open>close\<close> calls run one after the other on a new manager, with
  any drivers, a manager for which \<open>isInitialized\<close> is false answers the same way.
\<close>

theorem executeCommand_not_ready:
  "(page s = None \<longrightarrow>
      executeCommand d command s =
        (s, [], Inr (Obj [(''success'', Bool False), (''error'', Str ''Browser not initialized'')])))
   \<and> (\<not> isInitialized (lifecycle new_BrowserManager cs) \<longrightarrow>
      executeCommand d command (lifecycle new_BrowserManager cs) =
        (lifecycle new_BrowserManager cs, [],
         Inr (Obj [(''success'', Bool False), (''error'', Str ''Browser not initialized'')])))"
proof -
  have "settled new_BrowserManager"
    by (simp add: settled_def new_BrowserManager_def)
  then have "settled (lifecycle new_BrowserManager cs)"
    by (rule lifecycle_settled)
  then show ?thesis
    by (auto dest: settled_not_ready simp add: executeCommand_without_page)
qed

theorem executeCommand_not_ready_witness:
  "page new_BrowserManager = None
   \<and> executeCommand ok_driver (Obj [(''type'', Str ''reload'')]) new_BrowserManager =
       (new_BrowserManager, [],
        Inr (Obj [(''success'', Bool False), (''error'', Str ''Browser not initialized'')]))
   \<and> \<not> isInitialized
          (lifecycle new_BrowserManager
             [Initialize ok_driver, Close (ok_driver\<lparr>browser_close := (\<lambda>b. Inl ''Connection closed'')\<rparr>)])
   \<and> executeCommand ok_driver (Obj [(''type'', Str ''reload'')])
         (lifecycle new_BrowserManager
            [Initialize ok_driver, Close (ok_driver\<lparr>browser_close := (\<lambda>b. Inl ''Connection closed'')\<rparr>)]) =
       (\<lparr>browser = Some 1, page = None, isInitializing = False\<rparr>, [],
        Inr (Obj [(''success'', Bool False), (''error'', Str ''Browser not initialized'')]))"
proof -
  let ?cs = "[Initialize ok_driver,
              Close (ok_driver\<lparr>browser_close := (\<lambda>b. Inl ''Connection closed'')\<rparr>)]"
  have a: "page new_BrowserManager = None"
    by (simp add: new_BrowserManager_def)
  have s: "lifecycle new_BrowserManager ?cs = \<lparr>browser = Some 1, page = None, isInitializing = False\<rparr>"
    by (simp add: lifecycle_defs ok_driver_def new_BrowserManager_def)
  have b: "\<not> isInitialized (lifecycle new_BrowserManager ?cs)"
    unfolding s by (simp add: isInitialized_def)
  note t = executeCommand_not_ready [of new_BrowserManager ok_driver "Obj [(''type'', Str ''reload'')]" ?cs]
  from t a b show ?thesis
    unfolding s by blast
qed

text \<open>
  C6, as claimed, fails. The manager is ready and the command is
  \<open>{"type": {"toString": 1}}\<close>. Its type is none of the eight command types, so
  the \<open>switch\<close> takes its default branch; the template literal there converts the
  type to a string, which throws for this object; the \<open>catch\<close> logs the failure and
  returns the message of that TypeError, not an unknown-command error.
\<close>

theorem executeCommand_unknown_type_counterexample:
  "executeCommand ok_driver (Obj [(''type'', Obj [(''toString'', Num (Number ''1'' True))])])
     ready_manager =
     (ready_manager,
      [Log Info ''Executing browser command'' None,
       Log Error ''Browser command failed'' (Some ''Cannot convert object to primitive value'')],
      Inr (Obj [(''success'', Bool False),
                (''error'', Str ''Cannot convert object to primitive value'')]))
   \<and> Obj [(''toString'', Num (Number ''1'' True))] \<notin> set (map Str command_types)
   \<and> isInitialized ready_manager
   \<and> take 22 ''Cannot convert object to primitive value'' \<noteq> ''Unknown command type: ''"
  by (simp add: executeCommand_def command_try_def command_switch_def and_then_def evaluated_def
      opt_prop_def cannot_convert_def ok_driver_def ready_manager_def isInitialized_def
      command_types_def)

text \<open>
  C6, amended: when there is a live page handle (as there is when the manager is ready)
  and the \<open>type\<close> of the command is none of the eight command types,
  \<open>executeCommand\<close> returns a response with \<open>success: false\<close>, leaves every field as
  it was and invokes no operation of the driver. When the type converts to a string, as
  every string does (\<open>teleport\<close> is one), the error is \<open>Unknown command type: \<close>
  followed by that string, and the only effect is the log line that precedes the
  \<open>switch\<close>. When the conversion throws, the error is the message of the TypeError and
  the failure is logged as well.
\<close>

theorem executeCommand_unknown_type:
  assumes "page s \<noteq> None"
    and "js_get command ''type'' = Inr t"
    and "t \<notin> set (map Str command_types)"
  shows "executeCommand d command s =
           (case js_String t of
              Inr shown \<Rightarrow>
                (s, [Log Info ''Executing browser command'' None],
                 Inr (Obj [(''success'', Bool False),
                           (''error'', Str (''Unknown command type: '' @ shown))]))
            | Inl e \<Rightarrow>
                (s, [Log Info ''Executing browser command'' None,
                     Log Error ''Browser command failed'' (Some e)],
                 Inr (Obj [(''success'', Bool False), (''error'', Str e)])))
         \<and> (t = Str kind \<longrightarrow>
              executeCommand d command s =
                (s, [Log Info ''Executing browser command'' None],
                 Inr (Obj [(''success'', Bool False),
                           (''error'', Str (''Unknown command type: '' @ kind))])))
         \<and> fst (executeCommand d command s) = s
         \<and> calls_of (fst (snd (executeCommand d command s))) = []
         \<and> (\<exists>res. snd (snd (executeCommand d command s)) = Inr res
                \<and> js_get res ''success'' = Inr (Bool False))"
proof -
  have run: "executeCommand d command s =
           (case js_String t of
              Inr shown \<Rightarrow>
                (s, [Log Info ''Executing browser command'' None],
                 Inr (Obj [(''success'', Bool False),
                           (''error'', Str (''Unknown command type: '' @ shown))]))
            | Inl e \<Rightarrow>
                (s, [Log Info ''Executing browser command'' None,
                     Log Error ''Browser command failed'' (Some e)],
                 Inr (Obj [(''success'', Bool False), (''error'', Str e)])))"
    using assms
    by (auto simp add: executeCommand_def command_try_def command_switch_def command_types_def
        evaluated_def and_then_def split: sum.splits)
  show ?thesis
    unfolding run by (cases "js_String t") (auto simp add: calls_of_def)
qed

theorem executeCommand_unknown_type_witness:
  "page ready_manager \<noteq> None \<and> isInitialized ready_manager
   \<and> js_get (Obj [(''type'', Str ''teleport''), (''data'', Obj [(''to'', Str ''mars'')])]) ''type''
       = Inr (Str ''teleport'')
   \<and> Str ''teleport'' \<notin> set (map Str command_types)
   \<and> executeCommand ok_driver
        (Obj [(''type'', Str ''teleport''), (''data'', Obj [(''to'', Str ''mars'')])]) ready_manager =
       (ready_manager, [Log Info ''Executing browser command'' None],
        Inr (Obj [(''success'', Bool False),
                  (''error'', Str ''Unknown command type: teleport'')]))
   \<and> js_get (Obj [(''type'', Arr [Str ''a'', Obj [(''toString'', Null)]])]) ''type''
       = Inr (Arr [Str ''a'', Obj [(''toString'', Null)]])
   \<and> Arr [Str ''a'', Obj [(''toString'', Null)]] \<notin> set (map Str command_types)
   \<and> executeCommand ok_driver (Obj [(''type'', Arr [Str ''a'', Obj [(''toString'', Null)]])])
        ready_manager =
       (ready_manager,
        [Log Info ''Executing browser command'' None,
         Log Error ''Browser command failed'' (Some cannot_convert)],
        Inr (Obj [(''success'', Bool False), (''error'', Str cannot_convert)]))"
proof -
  let ?c = "Obj [(''type'', Str ''teleport''), (''data'', Obj [(''to'', Str ''mars'')])]"
  let ?bad = "Arr [Str ''a'', Obj [(''toString'', Null)]]"
  have a: "page ready_manager \<noteq> None" and a': "isInitialized ready_manager"
    by (simp_all add: ready_manager_def isInitialized_def)
  have b: "js_get ?c ''type'' = Inr (Str ''teleport'')"
    by simp
  have c: "Str ''teleport'' \<notin> set (map Str command_types)"
    by (simp add: command_types_def)
  have b': "js_get (Obj [(''type'', ?bad)]) ''type'' = Inr ?bad"
    by simp
  have c': "?bad \<notin> set (map Str command_types)"
    by (simp add: command_types_def)
  have conv: "js_String ?bad = Inl cannot_convert"
    by simp
  from executeCommand_unknown_type [OF a b c, of ok_driver "''teleport''"]
  have r1: "executeCommand ok_driver ?c ready_manager =
       (ready_manager, [Log Info ''Executing browser command'' None],
        Inr (Obj [(''success'', Bool False),
                  (''error'', Str (''Unknown command type: '' @ ''teleport''))]))"
    by blast
  from executeCommand_unknown_type [OF a b' c', of ok_driver "''x''"]
  have r2: "executeCommand ok_driver (Obj [(''type'', ?bad)]) ready_manager =
       (ready_manager,
        [Log Info ''Executing browser command'' None,
         Log Error ''Browser command failed'' (Some cannot_convert)],
        Inr (Obj [(''success'', Bool False), (''error'', Str cannot_convert)]))"
    unfolding conv by simp
  from a a' b c b' c' r1 r2 show ?thesis
    by simp
qed

text \<open>
  C10: \<open>executeCommand\<close> and \<open>getPageInfo\<close> assign none of the manager's fields: for
  every command, every driver and every starting state, also when the call throws, the
  browser handle, the page handle and the flag are afterwards what they were.
\<close>

theorem query_operations_frame:
  "fst (executeCommand d command s) = s \<and> fst (getPageInfo d s) = s"
  by (simp add: executeCommand_def getPageInfo_def split: option.splits sum.splits prod.splits)

section \<open>The WebSocket side\<close>

subsection \<open>What a client is sent\<close>














subsection \<open>A command sent by a client\<close>




subsection \<open>A client connecting\<close>

text \<open>The number sent for a size tells the size: two sizes give the same number only
  when they are equal.\<close>

lemma digit_char_inj: "m < 10 \<Longrightarrow> n < 10 \<Longrightarrow> char_of (48 + m) = (char_of (48 + n) :: char) \<Longrightarrow> m = (n::nat)"
proof -
  assume a: "m < 10" "n < 10" and e: "char_of (48 + m) = (char_of (48 + n) :: char)"
  from e have "of_char (char_of (48 + m) :: char) = (of_char (char_of (48 + n) :: char) :: nat)"
    by simp
  with a show "m = n"
    by (simp add: of_char_of)
qed

lemma digits_not_Nil: "digits n \<noteq> []"
  by (subst digits.simps) simp

lemma digits_inj: "digits m = digits n \<Longrightarrow> m = n"
proof (induction m arbitrary: n rule: digits.induct)
  case (1 m)
  show ?case
  proof (cases "m < 10")
    case True
    show ?thesis
    proof (cases "n < 10")
      case n: True
      from "1.prems" True n have "char_of (48 + m) = (char_of (48 + n) :: char)"
        by (subst (asm) digits.simps, subst (asm) (2) digits.simps) simp
      with True n show ?thesis by (rule digit_char_inj)
    next
      case False
      from "1.prems" True False have "[char_of (48 + m)] = digits (n div 10) @ [char_of (48 + n mod 10)]"
        by (subst (asm) digits.simps, subst (asm) (2) digits.simps) simp
      with digits_not_Nil [of "n div 10"] show ?thesis by simp
    qed
  next
    case False
    show ?thesis
    proof (cases "n < 10")
      case True
      from "1.prems" True False have "digits (m div 10) @ [char_of (48 + m mod 10)] = [char_of (48 + n)]"
        by (subst (asm) digits.simps, subst (asm) (2) digits.simps) simp
      with digits_not_Nil [of "m div 10"] show ?thesis by simp
    next
      case n: False
      from "1.prems" False n
      have "digits (m div 10) @ [char_of (48 + m mod 10)] = digits (n div 10) @ [char_of (48 + n mod 10)]"
        by (subst (asm) digits.simps, subst (asm) (2) digits.simps) simp
      then have d: "digits (m div 10) = digits (n div 10)"
        and c: "char_of (48 + m mod 10) = (char_of (48 + n mod 10) :: char)"
        by simp_all
      from "1.IH" [OF False d] have q: "m div 10 = n div 10" .
      from c have r: "m mod 10 = n mod 10"
        by (intro digit_char_inj) simp_all
      from q r show ?thesis
        by (metis div_mult_mod_eq)
    qed
  qed
qed

lemma size_number_inj: "size_number m = size_number n \<Longrightarrow> m = n"
  by (simp add: size_number_def digits_inj)

text \<open>
  C9: on a connection the socket is in the set afterwards, the manager is untouched,
  and exactly one message is sent, to that socket: a \<open>status\<close> message with the value
  of \<open>isInitialized\<close> and the number that is the size of the set after the socket
  was added (its decimal digits; it is truthy unless the size is zero). For a socket
  that was not in the set (a new connection is a new object) the set is the old one
  with the socket at the end, so the count sent is the old count plus one.
\<close>

theorem on_connection_snapshot:
  "w \<in> set (connectedClients (fst (on_connection srv w)))
   \<and> browserManager (fst (on_connection srv w)) = browserManager srv
   \<and> sends_of (snd (on_connection srv w)) =
       [(w, Obj [(''type'', Str ''status''),
                 (''data'',
                  Obj [(''initialized'', Bool (isInitialized (browserManager srv))),
                       (''connectedClients'',
                        Num (size_number
                               (length (connectedClients (fst (on_connection srv w))))))])])]
   \<and> (w \<notin> set (connectedClients srv) \<longrightarrow>
        connectedClients (fst (on_connection srv w)) = connectedClients srv @ [w]
        \<and> length (connectedClients (fst (on_connection srv w))) = Suc (length (connectedClients srv)))"
  by (simp add: on_connection_def Let_def set_add_def sends_of_def)

theorem on_connection_snapshot_witness:
  "(3::nat) \<notin> set (connectedClients \<lparr>browserManager = ready_manager, connectedClients = [1, 2]\<rparr>)
   \<and> connectedClients
       (fst (on_connection \<lparr>browserManager = ready_manager, connectedClients = [1, 2]\<rparr> 3)) = [1, 2, 3]
   \<and> sends_of (snd (on_connection \<lparr>browserManager = ready_manager, connectedClients = [1, 2]\<rparr> 3)) =
       [(3, Obj [(''type'', Str ''status''),
                 (''data'', Obj [(''initialized'', Bool True),
                                 (''connectedClients'', Num (Number ''3'' True))])])]"
proof -
  let ?srv = "\<lparr>browserManager = ready_manager, connectedClients = [1, 2]\<rparr>"
  have fresh: "(3::nat) \<notin> set (connectedClients ?srv)"
    by simp
  have ready: "isInitialized (browserManager ?srv)"
    by (simp add: ready_manager_def isInitialized_def)
  have three: "size_number (length [1::nat, 2, 3]) = Number ''3'' True"
    by code_simp
  note t = on_connection_snapshot [of 3 ?srv]
  from t fresh have cs: "connectedClients (fst (on_connection ?srv 3)) = [1, 2, 3]"
    by simp
  from t have "sends_of (snd (on_connection ?srv 3)) =
       [(3, Obj [(''type'', Str ''status''),
                 (''data'',
                  Obj [(''initialized'', Bool (isInitialized (browserManager ?srv))),
                       (''connectedClients'',
                        Num (size_number (length (connectedClients (fst (on_connection ?srv 3))))))])])]"
    by blast
  with ready have "sends_of (snd (on_connection ?srv 3)) =
       [(3, Obj [(''type'', Str ''status''),
                 (''data'', Obj [(''initialized'', Bool True),
                                 (''connectedClients'', Num (Number ''3'' True))])])]"
    unfolding cs three by simp
  with fresh cs show ?thesis
    by blast
qed

section \<open>Single-flight initialization\<close>

text \<open>Replacing one element of a list changes a count by what leaves and what comes.\<close>

lemma count_update:
  "i < length xs \<Longrightarrow>
   length (filter P (xs[i := y])) + (if P (xs ! i) then 1 else 0) =
   length (filter P xs) + (if P y then 1 else 0)"
proof (induction xs arbitrary: i)
  case Nil
  then show ?case by simp
next
  case (Cons x xs)
  then show ?case by (cases i) auto
qed

lemma in_flight_spawn:
  "initializations_in_flight (spawn sys (s, es, st)) =
     initializations_in_flight sys + (if initializing_task st then 1 else 0)"
  by (simp add: initializations_in_flight_def spawn_def)

lemma in_flight_continue:
  "i < length (tasks sys) \<Longrightarrow>
   initializations_in_flight (continue sys i (s, es, st))
     + (if initializing_task (tasks sys ! i) then 1 else 0) =
   initializations_in_flight sys + (if initializing_task st then 1 else 0)"
  using count_update [of i "tasks sys" initializing_task st]
  by (simp add: initializations_in_flight_def continue_def)

lemma mgr_spawn: "mgr (spawn sys (s, es, st)) = s"
  by (simp add: spawn_def)

lemma mgr_continue: "mgr (continue sys i (s, es, st)) = s"
  by (simp add: continue_def)

text \<open>The pieces of \<open>close\<close> leave the flag alone and never end at a suspension point of
  \<open>initialize\<close>.\<close>

lemma close_browser_shape:
  "\<exists>es st. close_browser s = (s, es, st) \<and> \<not> initializing_task st"
  by (simp add: close_browser_def split: option.splits)

lemma close_enter_shape:
  "\<exists>es st. close_enter s = (s, es, st) \<and> \<not> initializing_task st"
  using close_browser_shape [of s]
  by (auto simp add: close_enter_def split: option.splits)

lemma close_after_page_close_shape:
  "\<exists>s' es st. close_after_page_close s r = (s', es, st) \<and> \<not> initializing_task st
     \<and> isInitializing s' = isInitializing s"
  using close_browser_shape [of "s\<lparr>page := None\<rparr>"]
  by (auto simp add: close_after_page_close_def close_catch_def split: sum.splits)

lemma close_after_browser_close_shape:
  "\<exists>s' es st. close_after_browser_close s r = (s', es, st) \<and> \<not> initializing_task st
     \<and> isInitializing s' = isInitializing s"
  by (auto simp add: close_after_browser_close_def close_catch_def split: sum.splits)

text \<open>Each event keeps the flag and the suspended initializations in step.\<close>

lemma single_flight_initialize_enter:
  "single_flight sys \<Longrightarrow> single_flight (spawn sys (initialize_enter (mgr sys)))"
  by (simp add: single_flight_def initialize_enter_def in_flight_spawn mgr_spawn)

lemma single_flight_close_enter:
  "single_flight sys \<Longrightarrow> single_flight (spawn sys (close_enter (mgr sys)))"
  using close_enter_shape [of "mgr sys"]
  by (auto simp add: single_flight_def in_flight_spawn mgr_spawn)

lemma single_flight_after_launch:
  assumes "single_flight sys" and "i < length (tasks sys)" and "tasks sys ! i = Awaiting ALaunch"
  shows "single_flight (continue sys i (initialize_after_launch (mgr sys) r))"
  using assms in_flight_continue [OF assms(2), where s = "fst (initialize_after_launch (mgr sys) r)"
      and es = "fst (snd (initialize_after_launch (mgr sys) r))"
      and st = "snd (snd (initialize_after_launch (mgr sys) r))"]
  by (auto simp add: single_flight_def mgr_continue initialize_after_launch_def
      initialize_catch_def split: sum.splits if_splits)

lemma single_flight_after_newPage:
  assumes "single_flight sys" and "i < length (tasks sys)" and "tasks sys ! i = Awaiting (ANewPage b)"
  shows "single_flight (continue sys i (initialize_after_newPage (mgr sys) r))"
  using assms in_flight_continue [OF assms(2), where s = "fst (initialize_after_newPage (mgr sys) r)"
      and es = "fst (snd (initialize_after_newPage (mgr sys) r))"
      and st = "snd (snd (initialize_after_newPage (mgr sys) r))"]
  by (auto simp add: single_flight_def mgr_continue initialize_after_newPage_def
      initialize_catch_def split: sum.splits if_splits)

lemma single_flight_after_setViewport:
  assumes "single_flight sys" and "i < length (tasks sys)"
    and "tasks sys ! i = Awaiting (ASetViewport p)"
  shows "single_flight (continue sys i (initialize_after_setViewport (mgr sys) r))"
  using assms in_flight_continue [OF assms(2),
      where s = "fst (initialize_after_setViewport (mgr sys) r)"
      and es = "fst (snd (initialize_after_setViewport (mgr sys) r))"
      and st = "snd (snd (initialize_after_setViewport (mgr sys) r))"]
  by (auto simp add: single_flight_def mgr_continue initialize_after_setViewport_def
      initialize_catch_def split: sum.splits if_splits option.splits)

lemma single_flight_after_page_close:
  assumes "single_flight sys" and "i < length (tasks sys)"
    and "tasks sys ! i = Awaiting (APageClose p)"
  shows "single_flight (continue sys i (close_after_page_close (mgr sys) r))"
proof -
  from close_after_page_close_shape [of "mgr sys" r] obtain s' es st
    where c: "close_after_page_close (mgr sys) r = (s', es, st)" "\<not> initializing_task st"
      "isInitializing s' = isInitializing (mgr sys)"
    by blast
  from in_flight_continue [OF assms(2), of s' es st] assms c show ?thesis
    by (simp add: single_flight_def mgr_continue)
qed

lemma single_flight_after_browser_close:
  assumes "single_flight sys" and "i < length (tasks sys)"
    and "tasks sys ! i = Awaiting (ABrowserClose b)"
  shows "single_flight (continue sys i (close_after_browser_close (mgr sys) r))"
proof -
  from close_after_browser_close_shape [of "mgr sys" r] obtain s' es st
    where c: "close_after_browser_close (mgr sys) r = (s', es, st)" "\<not> initializing_task st"
      "isInitializing s' = isInitializing (mgr sys)"
    by blast
  from in_flight_continue [OF assms(2), of s' es st] assms c show ?thesis
    by (simp add: single_flight_def mgr_continue)
qed

lemma single_flight_step: "single_flight sys \<Longrightarrow> single_flight (step sys ev)"
proof (cases ev)
  case CallInitialize
  assume "single_flight sys"
  with CallInitialize show ?thesis by (simp add: step_def single_flight_initialize_enter)
next
  case CallClose
  assume "single_flight sys"
  with CallClose show ?thesis by (simp add: step_def single_flight_close_enter)
next
  case (SettleHandle i r)
  assume "single_flight sys"
  with SettleHandle show ?thesis
    by (simp add: step_def single_flight_after_launch single_flight_after_newPage
        split: status.splits await_point.splits)
next
  case (SettleVoid i r)
  assume "single_flight sys"
  with SettleVoid show ?thesis
    by (simp add: step_def single_flight_after_setViewport single_flight_after_page_close
        single_flight_after_browser_close split: status.splits await_point.splits)
qed

lemma single_flight_run: "single_flight sys \<Longrightarrow> single_flight (run sys evs)"
  by (induction evs arbitrary: sys) (simp_all add: single_flight_step)

lemma single_flight_new: "single_flight new_system"
  by (simp add: single_flight_def new_system_def new_BrowserManager_def
      initializations_in_flight_def)

lemma launches_le_initializations: "launches_in_flight sys \<le> initializations_in_flight sys"
proof -
  have "length (filter (\<lambda>st. st = Awaiting ALaunch) xs) \<le> length (filter initializing_task xs)"
    for xs
    by (induction xs) auto
  then show ?thesis
    by (simp add: launches_in_flight_def initializations_in_flight_def)
qed

lemmas scheduler_defs =
  step_def spawn_def continue_def new_system_def new_BrowserManager_def initialize_enter_def
  initialize_after_launch_def initialize_after_newPage_def initialize_after_setViewport_def
  initialize_catch_def

text \<open>
  C2: start from a new manager and let calls of \<open>initialize\<close> (and of \<open>close\<close>)
  arrive and the driver settle their operations in any order and with any answers.
  After every such sequence of events at most one launch is in flight; more precisely,
  the calls of \<open>initialize\<close> that are suspended number one when the flag
  \<open>isInitializing\<close> is set and none when it is not. In any state, a call of
  \<open>initialize\<close> arriving while the flag is set returns at once: it only logs a
  warning, so it invokes no launch and changes no field. A call arriving while no
  initialization runs and a browser is held does the same with another warning.
\<close>

theorem single_flight_initialization:
  "launches_in_flight (run new_system evs) \<le> 1
   \<and> initializations_in_flight (run new_system evs) =
       (if isInitializing (mgr (run new_system evs)) then 1 else 0)
   \<and> (isInitializing (mgr sys) \<longrightarrow>
        step sys CallInitialize =
          sys\<lparr>tasks := tasks sys @ [Returned],
              trace := trace sys @ [Log Warn ''Browser initialization already in progress'' None]\<rparr>)
   \<and> (\<not> isInitializing (mgr sys) \<and> browser (mgr sys) \<noteq> None \<longrightarrow>
        step sys CallInitialize =
          sys\<lparr>tasks := tasks sys @ [Returned],
              trace := trace sys @ [Log Warn ''Browser already initialized'' None]\<rparr>)"
proof -
  have inv: "single_flight (run new_system evs)"
    by (rule single_flight_run [OF single_flight_new])
  then have count: "initializations_in_flight (run new_system evs) =
       (if isInitializing (mgr (run new_system evs)) then 1 else 0)"
    by (simp add: single_flight_def)
  with launches_le_initializations [of "run new_system evs"]
  have "launches_in_flight (run new_system evs) \<le> 1"
    by (simp split: if_splits)
  moreover have "isInitializing (mgr sys) \<longrightarrow>
        step sys CallInitialize =
          sys\<lparr>tasks := tasks sys @ [Returned],
              trace := trace sys @ [Log Warn ''Browser initialization already in progress'' None]\<rparr>"
    by (simp add: step_def spawn_def initialize_enter_def)
  moreover have "\<not> isInitializing (mgr sys) \<and> browser (mgr sys) \<noteq> None \<longrightarrow>
        step sys CallInitialize =
          sys\<lparr>tasks := tasks sys @ [Returned],
              trace := trace sys @ [Log Warn ''Browser already initialized'' None]\<rparr>"
    by (auto simp add: step_def spawn_def initialize_enter_def)
  ultimately show ?thesis
    using count by blast
qed

theorem single_flight_initialization_witness:
  "launches_in_flight (run new_system [CallInitialize, CallInitialize]) \<le> 1
   \<and> tasks (run new_system [CallInitialize, CallInitialize]) = [Awaiting ALaunch, Returned]
   \<and> isInitializing (mgr (run new_system [CallInitialize]))
   \<and> step (run new_system [CallInitialize]) CallInitialize =
       (run new_system [CallInitialize])
         \<lparr>tasks := tasks (run new_system [CallInitialize]) @ [Returned],
          trace := trace (run new_system [CallInitialize])
                     @ [Log Warn ''Browser initialization already in progress'' None]\<rparr>
   \<and> \<not> isInitializing (mgr (run new_system
            [CallInitialize, SettleHandle 0 (Inr 1), SettleHandle 0 (Inr 2), SettleVoid 0 (Inr ())]))
   \<and> browser (mgr (run new_system
            [CallInitialize, SettleHandle 0 (Inr 1), SettleHandle 0 (Inr 2), SettleVoid 0 (Inr ())]))
       = Some 1
   \<and> tasks (step (run new_system
            [CallInitialize, SettleHandle 0 (Inr 1), SettleHandle 0 (Inr 2), SettleVoid 0 (Inr ())])
          CallInitialize) = [Returned, Returned]"
proof -
  let ?one = "run new_system [CallInitialize]"
  let ?ready = "run new_system
    [CallInitialize, SettleHandle 0 (Inr 1), SettleHandle 0 (Inr 2), SettleVoid 0 (Inr ())]"
  have two: "tasks (run new_system [CallInitialize, CallInitialize]) = [Awaiting ALaunch, Returned]"
    by (simp add: scheduler_defs)
  have one: "isInitializing (mgr ?one)"
    by (simp add: scheduler_defs)
  have ready: "\<not> isInitializing (mgr ?ready)" "browser (mgr ?ready) = Some 1"
    "tasks ?ready = [Returned]"
    by (simp_all add: scheduler_defs)
  note t1 = single_flight_initialization [of "[CallInitialize, CallInitialize]" ?one]
  note t2 = single_flight_initialization [of "[CallInitialize, CallInitialize]" ?ready]
  from t1 one have a: "step ?one CallInitialize =
       ?one\<lparr>tasks := tasks ?one @ [Returned],
            trace := trace ?one @ [Log Warn ''Browser initialization already in progress'' None]\<rparr>"
    by blast
  from t2 ready have "step ?ready CallInitialize =
       ?ready\<lparr>tasks := tasks ?ready @ [Returned],
              trace := trace ?ready @ [Log Warn ''Browser already initialized'' None]\<rparr>"
    by simp
  then have b: "tasks (step ?ready CallInitialize) = [Returned, Returned]"
    using ready(3) by simp
  from t1 have c: "launches_in_flight (run new_system [CallInitialize, CallInitialize]) \<le> 1"
    by blast
  from a b c two one ready show ?thesis
    by blast
qed

end
